theory Spec2Isabelle
  imports Complex_Main "HOL-Library.Word" "HOL-Library.AList"
begin

section \<open>JavaScript values\<close>

text \<open>
  A JavaScript string is a sequence of UTF-16 code units. Source literals are ASCII and
  are written through \<open>ascii\<close>.
\<close>

type_synonym jsstr = "16 word list"

definition ascii :: "string \<Rightarrow> jsstr" where
  "ascii s = map of_char s"

text \<open>
  A JavaScript number is NaN, an infinity or a finite value. Every finite double is a
  rational; the two zeros are identified.
\<close>

datatype jsnum = NaN | NegInfinity | Finite rat | PosInfinity

text \<open>The relational operator \<open><\<close> on numbers: false whenever an operand is NaN.\<close>

fun js_less :: "jsnum \<Rightarrow> jsnum \<Rightarrow> bool" where
  "js_less NaN _ = False"
| "js_less _ NaN = False"
| "js_less _ NegInfinity = False"
| "js_less NegInfinity _ = True"
| "js_less PosInfinity _ = False"
| "js_less (Finite a) PosInfinity = True"
| "js_less (Finite a) (Finite b) = (a < b)"

text \<open>\<open>Math.min\<close> of two numbers: NaN if either is NaN, else the smaller one.\<close>

definition Math_min :: "jsnum \<Rightarrow> jsnum \<Rightarrow> jsnum" where
  "Math_min a b =
     (if a = NaN \<or> b = NaN then NaN else if js_less b a then b else a)"

text \<open>
  The values that JSON texts and plain data objects are made of, and \<open>undefined\<close>.
  An object is its own properties in insertion order.
\<close>

datatype jsval =
    JSUndefined
  | JSNull
  | JSBool bool
  | JSNumber jsnum
  | JSString jsstr
  | JSArray "jsval list"
  | JSObject "(jsstr \<times> jsval) list"

text \<open>ToBoolean: what \<open>!v\<close> and \<open>v && ...\<close> test.\<close>

fun truthy :: "jsval \<Rightarrow> bool" where
  "truthy JSUndefined = False"
| "truthy JSNull = False"
| "truthy (JSBool b) = b"
| "truthy (JSNumber n) = (n \<noteq> NaN \<and> n \<noteq> Finite 0)"
| "truthy (JSString s) = (s \<noteq> [])"
| "truthy (JSArray _) = True"
| "truthy (JSObject _) = True"

section \<open>Thrown values\<close>

text \<open>
  What the environment (\<open>fetch\<close>, a response body reader, \<open>JSON.parse\<close>) throws: an
  \<open>Error\<close> instance with its message, or some value that is not an \<open>Error\<close>.
\<close>

datatype env_error = ErrorInstance jsstr | NonError jsval

text \<open>
  One constructor per \<open>throw\<close> site of the sources, and the errors raised by the engine
  and the runtime library:
  \<^item> \<open>InvalidSlugParameter\<close>: \<open>new Error('Invalid slug parameter')\<close>;
  \<^item> \<open>GraphQLErrors m\<close>: \<open>new Error(`GraphQL error: ${m}`)\<close>, \<open>m\<close> the joined messages;
  \<^item> \<open>NoDataReturned\<close>: \<open>new Error('No data returned from GraphQL query')\<close>;
  \<^item> \<open>HTTPStatusError status statusText body\<close>:
    \<open>new GraphQLError(`HTTP ${status}: ${statusText}`, status, statusText, body)\<close>;
  \<^item> \<open>NetworkError m\<close>: \<open>new GraphQLError(m)\<close>, status and body undefined;
  \<^item> \<open>InvalidJSONPayload\<close>: \<open>new Error('Invalid JSON payload')\<close>;
  \<^item> \<open>MissingRequiredFields\<close>: \<open>new Error('Missing required webhook fields')\<close>;
  \<^item> \<open>InvalidWebhookEvent v\<close>: \<open>new Error(`Invalid webhook event: ${v}`)\<close>;
  \<^item> \<open>TypeError\<close>: the engine's error for a property read on \<open>undefined\<close> or \<open>null\<close>
    and for a call of something that is not a function;
  \<^item> \<open>RangeError\<close>: \<open>crypto.timingSafeEqual\<close> on buffers of different byte length;
  \<^item> \<open>Foreign e\<close>: a value thrown by the environment, passed on unchanged.
\<close>

datatype thrown =
    InvalidSlugParameter
  | GraphQLErrors jsstr
  | NoDataReturned
  | HTTPStatusError nat jsstr jsstr
  | NetworkError jsstr
  | InvalidJSONPayload
  | MissingRequiredFields
  | InvalidWebhookEvent jsval
  | TypeError
  | RangeError
  | Foreign env_error

text \<open>
  Member access \<open>v.k\<close> for the property names the sources read (\<open>publication\<close>,
  \<open>posts\<close>, \<open>edges\<close>, \<open>node\<close>, \<open>post\<close>, \<open>event\<close>, \<open>timestamp\<close>): none of
  them is a built-in property of a primitive, an array or \<open>Object.prototype\<close>, so the
  read is an own-property lookup on an object, \<open>undefined\<close> on every other value, and a
  TypeError on \<open>undefined\<close> and \<open>null\<close>.
\<close>

fun get_prop :: "jsval \<Rightarrow> jsstr \<Rightarrow> thrown + jsval" where
  "get_prop JSUndefined k = Inl TypeError"
| "get_prop JSNull k = Inl TypeError"
| "get_prop (JSObject kvs) k =
     Inr (case map_of kvs k of None \<Rightarrow> JSUndefined | Some v \<Rightarrow> v)"
| "get_prop _ k = Inr JSUndefined"

text \<open>
  What \<open>JSON.stringify\<close> writes, as the value that its text denotes: a number that is
  not finite is written \<open>null\<close>, an \<open>undefined\<close> element of an array is written
  \<open>null\<close>, a property whose value is \<open>undefined\<close> is left out.
\<close>

fun JSON_value :: "jsval \<Rightarrow> jsval" where
  "JSON_value (JSNumber (Finite q)) = JSNumber (Finite q)"
| "JSON_value (JSNumber _) = JSNull"
| "JSON_value (JSArray xs) =
     JSArray (map (\<lambda>x. if x = JSUndefined then JSNull else JSON_value x) xs)"
| "JSON_value (JSObject kvs) =
     JSObject (map (\<lambda>kv. (fst kv, JSON_value (snd kv)))
                 (filter (\<lambda>kv. snd kv \<noteq> JSUndefined) kvs))"
| "JSON_value v = v"

text \<open>The properties of an object as \<open>JSON.stringify\<close> writes them.\<close>

definition JSON_properties :: "(jsstr \<times> jsval) list \<Rightarrow> (jsstr \<times> jsval) list" where
  "JSON_properties kvs =
     (case JSON_value (JSObject kvs) of JSObject written \<Rightarrow> written | _ \<Rightarrow> [])"

section \<open>Webhook helper (webhooks.js)\<close>

subsection \<open>Runtime library: HMAC digest, hex encoding, buffers\<close>

text \<open>
  \<open>crypto.createHmac('sha256', key).update(msg)\<close> is a parameter \<open>hmac\<close> of the
  model, from the key and the message to the 256-bit digest. \<open>digest('hex')\<close> writes the
  digest as 64 lower-case hexadecimal digits, most significant first.
\<close>

type_synonym hmac_sha256 = "jsstr \<Rightarrow> jsstr \<Rightarrow> 256 word"

definition hex_digit :: "nat \<Rightarrow> 16 word" where
  "hex_digit d = (if d < 10 then of_nat (48 + d) else of_nat (87 + d))"

definition digest_hex :: "256 word \<Rightarrow> jsstr" where
  "digest_hex w = map (\<lambda>i. hex_digit ((unat w div 16 ^ (63 - i)) mod 16)) [0..<64]"

text \<open>
  \<open>Buffer.from(s)\<close> on a string is its UTF-8 encoding: a surrogate pair is one code point
  of four bytes, a lone surrogate becomes U+FFFD (EF BF BD).
\<close>

definition is_high_surrogate :: "16 word \<Rightarrow> bool" where
  "is_high_surrogate c = (0xD800 \<le> unat c \<and> unat c < 0xDC00)"

definition is_low_surrogate :: "16 word \<Rightarrow> bool" where
  "is_low_surrogate c = (0xDC00 \<le> unat c \<and> unat c < 0xE000)"

definition utf8_of_code_point :: "nat \<Rightarrow> 8 word list" where
  "utf8_of_code_point u =
     (if u < 0x80 then [of_nat u]
      else if u < 0x800 then [of_nat (0xC0 + u div 64), of_nat (0x80 + u mod 64)]
      else if u < 0x10000 then
        [of_nat (0xE0 + u div 4096), of_nat (0x80 + (u div 64) mod 64), of_nat (0x80 + u mod 64)]
      else
        [of_nat (0xF0 + u div 262144), of_nat (0x80 + (u div 4096) mod 64),
         of_nat (0x80 + (u div 64) mod 64), of_nat (0x80 + u mod 64)])"

fun Buffer_from :: "jsstr \<Rightarrow> 8 word list" where
  "Buffer_from [] = []"
| "Buffer_from [c] =
     (if is_high_surrogate c \<or> is_low_surrogate c then utf8_of_code_point 0xFFFD
      else utf8_of_code_point (unat c))"
| "Buffer_from (c # d # cs) =
     (if is_high_surrogate c \<and> is_low_surrogate d then
        utf8_of_code_point (0x10000 + (unat c - 0xD800) * 1024 + (unat d - 0xDC00)) @ Buffer_from cs
      else if is_high_surrogate c \<or> is_low_surrogate c then
        utf8_of_code_point 0xFFFD @ Buffer_from (d # cs)
      else utf8_of_code_point (unat c) @ Buffer_from (d # cs))"

text \<open>\<open>crypto.timingSafeEqual\<close>: throws on buffers of different byte length.\<close>

definition timingSafeEqual :: "8 word list \<Rightarrow> 8 word list \<Rightarrow> thrown + bool" where
  "timingSafeEqual a b = (if length a \<noteq> length b then Inl RangeError else Inr (a = b))"

subsection \<open>verifyWebhookSignature, generateWebhookSignature\<close>

definition generateWebhookSignature :: "hmac_sha256 \<Rightarrow> jsstr \<Rightarrow> jsstr \<Rightarrow> jsstr" where
  "generateWebhookSignature hmac payload secret = digest_hex (hmac secret payload)"

text \<open>The body of the \<open>try\<close> block of \<open>verifyWebhookSignature\<close>.\<close>

definition verifyWebhookSignature_try ::
  "hmac_sha256 \<Rightarrow> jsstr \<Rightarrow> jsstr \<Rightarrow> jsstr \<Rightarrow> thrown + bool" where
  "verifyWebhookSignature_try hmac payload signature secret =
     (let expectedSignature = digest_hex (hmac secret payload)
      in timingSafeEqual (Buffer_from signature) (Buffer_from expectedSignature))"

text \<open>
  The parameters are strings, as declared. \<open>!s\<close> on a string is \<open>s = ''\<close>. The result is
  \<open>Inl\<close> if the call throws.
\<close>

definition verifyWebhookSignature ::
  "hmac_sha256 \<Rightarrow> jsstr \<Rightarrow> jsstr \<Rightarrow> jsstr \<Rightarrow> thrown + bool" where
  "verifyWebhookSignature hmac payload signature secret =
     (if \<not> truthy (JSString payload) \<or> \<not> truthy (JSString signature) \<or> \<not> truthy (JSString secret)
      then Inr False
      else (case verifyWebhookSignature_try hmac payload signature secret of
              Inl _ \<Rightarrow> Inr False
            | Inr b \<Rightarrow> Inr b))"

subsection \<open>parseWebhookPayload\<close>

definition validEvents :: "jsstr list" where
  "validEvents =
     [ascii ''POST_PUBLISHED'', ascii ''POST_UPDATED'', ascii ''POST_DELETED'',
      ascii ''STATIC_PAGE_PUBLISHED'', ascii ''STATIC_PAGE_UPDATED'',
      ascii ''STATIC_PAGE_DELETED'']"

text \<open>
  \<open>validEvents.includes(v)\<close> compares by SameValueZero: a string equals only the same
  string, and no other value equals a string.
\<close>

fun includes_event :: "jsstr list \<Rightarrow> jsval \<Rightarrow> bool" where
  "includes_event evs (JSString s) = (s \<in> set evs)"
| "includes_event evs _ = False"

text \<open>
  The validation of the parsed data: the three reads of
  \<open>!data.event || !data.publication || !data.timestamp\<close> from left to right, then the
  event check.
\<close>

definition validate_webhook_data :: "jsval \<Rightarrow> thrown + jsval" where
  "validate_webhook_data data =
     (case get_prop data (ascii ''event'') of
        Inl e \<Rightarrow> Inl e
      | Inr ev \<Rightarrow>
          if \<not> truthy ev then Inl MissingRequiredFields
          else (case get_prop data (ascii ''publication'') of
                  Inl e \<Rightarrow> Inl e
                | Inr pub \<Rightarrow>
                    if \<not> truthy pub then Inl MissingRequiredFields
                    else (case get_prop data (ascii ''timestamp'') of
                            Inl e \<Rightarrow> Inl e
                          | Inr ts \<Rightarrow>
                              if \<not> truthy ts then Inl MissingRequiredFields
                              else if \<not> includes_event validEvents ev
                                then Inl (InvalidWebhookEvent ev)
                                else Inr data)))"

text \<open>
  \<open>JSON.parse\<close> is a parameter: the parsed value, or what it throws. A payload that is
  not a string is taken as the data.
\<close>

definition parseWebhookPayload ::
  "(jsstr \<Rightarrow> env_error + jsval) \<Rightarrow> jsval \<Rightarrow> thrown + jsval" where
  "parseWebhookPayload JSON_parse payload =
     (case payload of
        JSString s \<Rightarrow>
          (case JSON_parse s of
             Inl _ \<Rightarrow> Inl InvalidJSONPayload
           | Inr data \<Rightarrow> validate_webhook_data data)
      | _ \<Rightarrow> validate_webhook_data payload)"

section \<open>Transport (graphql-client.ts)\<close>

text \<open>
  A promise of the environment stays pending for ever, rejects or resolves; a promise of
  the program does the same with a \<open>thrown\<close> value as its reason.
\<close>

datatype 'a env_promise = NeverSettles | Rejects env_error | Resolves 'a

datatype 'a promise = Pending | Rejected thrown | Fulfilled 'a

subsection \<open>Query catalog (queries.js)\<close>

text \<open>
  The four field fragments, and the documents the catalog builds from them. A document
  stands for its template text: \<open>GetBlogPost_document fs\<close> is
  \<open>query GetBlogPost($host: String!, $slug: String!) { publication(host: $host) {
  post(slug: $slug) { fs } } }\<close>, and likewise for the other two.
\<close>

datatype field_set =
    POST_BASE_FIELDS
  | POST_EXTENDED_FIELDS
  | POST_FULL_FIELDS
  | POST_FULL_EXTENDED_FIELDS

datatype query_document =
    GetPublication_document
  | GetBlogPosts_document field_set
  | GetBlogPost_document field_set

definition HashnodeQueries_getPublication :: query_document where
  "HashnodeQueries_getPublication = GetPublication_document"

definition HashnodeQueries_getBlogPosts :: "bool \<Rightarrow> query_document" where
  "HashnodeQueries_getBlogPosts extended =
     GetBlogPosts_document (if extended then POST_EXTENDED_FIELDS else POST_BASE_FIELDS)"

definition HashnodeQueries_getBlogPostBySlug :: "bool \<Rightarrow> query_document" where
  "HashnodeQueries_getBlogPostBySlug extended =
     GetBlogPost_document (if extended then POST_FULL_EXTENDED_FIELDS else POST_FULL_FIELDS)"

subsection \<open>Requests, responses, the network\<close>

record gql_payload =
  query :: query_document
  variables :: "(jsstr \<times> jsval) list option"

record query_options =
  timeout_opt :: "jsnum option"
  headers_opt :: "(jsstr \<times> jsstr) list option"

text \<open>
  The arguments of one \<open>fetch\<close> call. \<open>body\<close> is the request body as it goes out:
  the payload as the text \<open>JSON.stringify(payload)\<close> denotes it. \<open>next_revalidate\<close>
  and \<open>cache\<close> are the Next.js extensions, absent outside that runtime.
\<close>

record fetch_call =
  url :: jsstr
  http_method :: jsstr
  headers :: "(jsstr \<times> jsstr) list"
  body :: gql_payload
  next_revalidate :: "nat option"
  cache :: "jsstr option"

text \<open>
  A response: \<open>text_body\<close> and \<open>json_body\<close> are what \<open>response.text()\<close> and
  \<open>response.json()\<close> settle to. The parsed body has the type \<open>'j\<close> that the caller of
  \<open>GraphQLClient.query<T>\<close> asserts.
\<close>

record 'j fetch_response =
  ok :: bool
  status :: nat
  statusText :: jsstr
  text_body :: "jsstr env_promise"
  json_body :: "'j env_promise"

text \<open>
  The runtime: \<open>fetch\<close> acts on the state \<open>'w\<close> of the remote side; the two flags say
  whether \<open>globalThis.EdgeRuntime\<close> and \<open>process.env.NEXT_RUNTIME\<close> are defined;
  \<open>HASHNODE_PUBLICATION_HOST\<close> is the environment variable.
\<close>

record ('w, 'j) runtime =
  fetch :: "'w \<Rightarrow> fetch_call \<Rightarrow> 'j fetch_response env_promise \<times> 'w"
  EdgeRuntime_defined :: bool
  NEXT_RUNTIME_defined :: bool
  HASHNODE_PUBLICATION_HOST :: "jsstr option"

text \<open>The state threaded through the program: the remote side and the calls made so far.\<close>

record 'w net =
  remote :: 'w
  calls :: "fetch_call list"

definition calls_since :: "'w net \<Rightarrow> 'w net \<Rightarrow> fetch_call list" where
  "calls_since st st' = drop (length (calls st)) (calls st')"

text \<open>Object spread \<open>{...a, ...b}\<close>: a later key overwrites, a new key is appended.\<close>

definition obj_spread :: "('k \<times> 'v) list \<Rightarrow> ('k \<times> 'v) list \<Rightarrow> ('k \<times> 'v) list" where
  "obj_spread a b = foldl (\<lambda>acc (k, v). AList.update k v acc) a b"

subsection \<open>GraphQLClient.query\<close>

text \<open>
  \<open>JSON.stringify(payload)\<close>: the query text goes out as it is, the variables as
  \<open>JSON.stringify\<close> writes them, and \<open>variables\<close> is left out when undefined.
\<close>

definition JSON_stringify_payload :: "gql_payload \<Rightarrow> gql_payload" where
  "JSON_stringify_payload payload =
     \<lparr> query = query payload,
       variables = (case variables payload of
                      None \<Rightarrow> None
                    | Some vars \<Rightarrow> Some (JSON_properties vars)) \<rparr>"

text \<open>The arguments that \<open>GraphQLClient.query\<close> passes to \<open>fetch\<close>.\<close>

definition GraphQLClient_request ::
  "('w, 'j) runtime \<Rightarrow> jsstr \<Rightarrow> gql_payload \<Rightarrow> query_options \<Rightarrow> fetch_call" where
  "GraphQLClient_request rt u payload options =
     (let nextjs = (EdgeRuntime_defined rt \<or> NEXT_RUNTIME_defined rt)
      in \<lparr> url = u,
           http_method = ascii ''POST'',
           headers = obj_spread [(ascii ''Content-Type'', ascii ''application/json'')]
                       (case headers_opt options of None \<Rightarrow> [] | Some h \<Rightarrow> h),
           body = JSON_stringify_payload payload,
           next_revalidate = (if nextjs then Some 300 else None),
           cache = (if nextjs then Some (ascii ''no-store'') else None) \<rparr>)"

text \<open>
  The \<open>catch\<close> clause of \<open>GraphQLClient.query\<close> on what the environment threw:
  \<open>new GraphQLError(error instanceof Error ? error.message : 'Network request failed')\<close>.
\<close>

definition network_failure :: "env_error \<Rightarrow> thrown" where
  "network_failure error =
     NetworkError (case error of
                     ErrorInstance m \<Rightarrow> m
                   | NonError _ \<Rightarrow> ascii ''Network request failed'')"

text \<open>
  \<open>GraphQLClient.query\<close>. The \<open>try\<close> block awaits \<open>fetch\<close> and, on a status that is
  not ok, \<open>response.text()\<close>; the \<open>GraphQLError\<close> it throws is rethrown by the
  \<open>catch\<close> clause as it is. \<open>return response.json()\<close> is not awaited inside the
  \<open>try\<close>, so a rejection of it is not caught. The option \<open>timeout\<close> is not read.
\<close>

definition GraphQLClient_query ::
  "('w, 'j) runtime \<Rightarrow> jsstr \<Rightarrow> gql_payload \<Rightarrow> query_options \<Rightarrow> 'w net
     \<Rightarrow> 'j promise \<times> 'w net" where
  "GraphQLClient_query rt u payload options st =
     (let call = GraphQLClient_request rt u payload options;
          (settled, w') = fetch rt (remote st) call;
          st' = \<lparr> remote = w', calls = calls st @ [call] \<rparr>
      in case settled of
           NeverSettles \<Rightarrow> (Pending, st')
         | Rejects error \<Rightarrow> (Rejected (network_failure error), st')
         | Resolves response \<Rightarrow>
             if \<not> ok response then
               (case text_body response of
                  NeverSettles \<Rightarrow> (Pending, st')
                | Rejects error \<Rightarrow> (Rejected (network_failure error), st')
                | Resolves t \<Rightarrow>
                    (Rejected (HTTPStatusError (status response) (statusText response) t), st'))
             else
               (case json_body response of
                  NeverSettles \<Rightarrow> (Pending, st')
                | Rejects error \<Rightarrow> (Rejected (Foreign error), st')
                | Resolves j \<Rightarrow> (Fulfilled j, st')))"

section \<open>Configuration (config.js)\<close>

definition API_URL :: jsstr where
  "API_URL = ascii ''https://gql.hashnode.com''"

definition PUBLICATION_HOST :: "('w, 'j) runtime \<Rightarrow> jsstr" where
  "PUBLICATION_HOST rt =
     (case HASHNODE_PUBLICATION_HOST rt of
        None \<Rightarrow> ascii ''yourblog.hashnode.dev''
      | Some h \<Rightarrow> if truthy (JSString h) then h else ascii ''yourblog.hashnode.dev'')"

definition TIMEOUT_MS :: jsnum where
  "TIMEOUT_MS = Finite 15000"

definition MAX_POSTS_PER_REQUEST :: jsnum where
  "MAX_POSTS_PER_REQUEST = Finite 20"

definition DEFAULT_POSTS_COUNT :: jsnum where
  "DEFAULT_POSTS_COUNT = Finite 10"

section \<open>Service (service.ts)\<close>

text \<open>
  The response envelope at its declared type \<open>GraphQLResponse<T>\<close>: both fields are
  optional, an error has a message. The data stays a raw JSON value, so that a missing
  or null part of it makes the projections below throw.
\<close>

record GraphQLError_entry =
  message :: jsstr
  extensions_code :: "jsstr option"

record GraphQLResponse =
  data :: "jsval option"
  errors :: "GraphQLError_entry list option"

record HashnodeService =
  apiUrl :: jsstr
  publicationHost :: jsstr
  timeout :: jsnum

text \<open>The singleton \<open>hashnodeService = new HashnodeService()\<close>, all defaults.\<close>

definition hashnodeService :: "('w, 'j) runtime \<Rightarrow> HashnodeService" where
  "hashnodeService rt =
     \<lparr> apiUrl = API_URL, publicationHost = PUBLICATION_HOST rt, timeout = TIMEOUT_MS \<rparr>"

definition executeQuery ::
  "('w, GraphQLResponse) runtime \<Rightarrow> HashnodeService \<Rightarrow> query_document
     \<Rightarrow> (jsstr \<times> jsval) list \<Rightarrow> 'w net \<Rightarrow> GraphQLResponse promise \<times> 'w net" where
  "executeQuery rt this q vars st =
     GraphQLClient_query rt (apiUrl this)
       \<lparr> query = q, variables = Some vars \<rparr>
       \<lparr> timeout_opt = Some (timeout this), headers_opt = None \<rparr> st"

text \<open>The one \<open>fetch\<close> call that \<open>executeQuery\<close> makes.\<close>

definition executeQuery_call ::
  "('w, 'j) runtime \<Rightarrow> HashnodeService \<Rightarrow> query_document \<Rightarrow> (jsstr \<times> jsval) list
     \<Rightarrow> fetch_call" where
  "executeQuery_call rt this q vars =
     GraphQLClient_request rt (apiUrl this)
       \<lparr> query = q, variables = Some vars \<rparr>
       \<lparr> timeout_opt = Some (timeout this), headers_opt = None \<rparr>"

text \<open>\<open>Array.prototype.join\<close> on strings.\<close>

fun js_join :: "jsstr \<Rightarrow> jsstr list \<Rightarrow> jsstr" where
  "js_join sep [] = []"
| "js_join sep [x] = x"
| "js_join sep (x # y # ys) = x @ sep @ js_join sep (y # ys)"

definition validateResponse :: "GraphQLResponse \<Rightarrow> thrown + jsval" where
  "validateResponse response =
     (let after_errors =
            (case data response of
               None \<Rightarrow> Inl NoDataReturned
             | Some d \<Rightarrow> if \<not> truthy d then Inl NoDataReturned else Inr d)
      in case errors response of
           None \<Rightarrow> after_errors
         | Some es \<Rightarrow>
             if length es > 0 then
               (let errorMessages = js_join (ascii '', '') (map message es)
                in Inl (GraphQLErrors errorMessages))
             else after_errors)"

text \<open>Sequencing of steps that may throw.\<close>

definition and_then :: "thrown + 'a \<Rightarrow> ('a \<Rightarrow> thrown + 'b) \<Rightarrow> thrown + 'b" where
  "and_then r f = (case r of Inl e \<Rightarrow> Inl e | Inr v \<Rightarrow> f v)"

fun map_throwing :: "('a \<Rightarrow> thrown + 'b) \<Rightarrow> 'a list \<Rightarrow> thrown + 'b list" where
  "map_throwing f [] = Inr []"
| "map_throwing f (x # xs) =
     and_then (f x) (\<lambda>y. and_then (map_throwing f xs) (\<lambda>ys. Inr (y # ys)))"

text \<open>
  \<open>edges.map((edge) => edge.node)\<close>: only an array has a callable \<open>map\<close>; on any other
  value the call is a TypeError.
\<close>

fun map_edge_nodes :: "jsval \<Rightarrow> thrown + jsval" where
  "map_edge_nodes (JSArray edges) =
     and_then (map_throwing (\<lambda>edge. get_prop edge (ascii ''node'')) edges) (\<lambda>ns. Inr (JSArray ns))"
| "map_edge_nodes _ = Inl TypeError"

subsection \<open>getBlogPosts\<close>

definition getBlogPosts_limit :: "jsnum option \<Rightarrow> jsnum" where
  "getBlogPosts_limit count =
     Math_min (case count of None \<Rightarrow> DEFAULT_POSTS_COUNT | Some c \<Rightarrow> c) MAX_POSTS_PER_REQUEST"

definition getBlogPosts_variables :: "HashnodeService \<Rightarrow> jsnum option \<Rightarrow> (jsstr \<times> jsval) list" where
  "getBlogPosts_variables this count =
     [(ascii ''host'', JSString (publicationHost this)),
      (ascii ''first'', JSNumber (getBlogPosts_limit count))]"

text \<open>
  The body of each of the two \<open>try\<close> blocks of \<open>getBlogPosts\<close>; they differ in the
  flag given to the query catalog only.
\<close>

definition getBlogPosts_try ::
  "('w, GraphQLResponse) runtime \<Rightarrow> HashnodeService \<Rightarrow> bool \<Rightarrow> (jsstr \<times> jsval) list
     \<Rightarrow> 'w net \<Rightarrow> jsval promise \<times> 'w net" where
  "getBlogPosts_try rt this extended vars st =
     (case executeQuery rt this (HashnodeQueries_getBlogPosts extended) vars st of
        (Pending, st') \<Rightarrow> (Pending, st')
      | (Rejected e, st') \<Rightarrow> (Rejected e, st')
      | (Fulfilled response, st') \<Rightarrow>
          (case and_then (validateResponse response) (\<lambda>d.
                and_then (get_prop d (ascii ''publication'')) (\<lambda>publication.
                and_then (get_prop publication (ascii ''posts'')) (\<lambda>posts.
                and_then (get_prop posts (ascii ''edges'')) map_edge_nodes))) of
             Inl e \<Rightarrow> (Rejected e, st')
           | Inr nodes \<Rightarrow> (Fulfilled nodes, st')))"

text \<open>
  How the inner \<open>try\<close>/\<open>catch\<close> statement of \<open>getBlogPosts\<close> ends: with a \<open>return\<close>,
  suspended for ever at an \<open>await\<close>, or by running on to the statement after it.
\<close>

datatype 'a completion = Returns 'a | Suspended | RunsOn

text \<open>
  \<open>count\<close> is a number or \<open>undefined\<close> (\<open>None\<close>). After the inner
  \<open>try\<close>/\<open>catch\<close> stands \<open>throw error\<close>.
\<close>

definition HashnodeService_getBlogPosts ::
  "('w, GraphQLResponse) runtime \<Rightarrow> HashnodeService \<Rightarrow> jsnum option \<Rightarrow> 'w net
     \<Rightarrow> jsval promise \<times> 'w net" where
  "HashnodeService_getBlogPosts rt this count st =
     (let vars = getBlogPosts_variables this count
      in case getBlogPosts_try rt this True vars st of
           (Fulfilled posts, st1) \<Rightarrow> (Fulfilled posts, st1)
         | (Pending, st1) \<Rightarrow> (Pending, st1)
         | (Rejected error, st1) \<Rightarrow>
             (let (inner, st2) =
                    (case getBlogPosts_try rt this False vars st1 of
                       (Fulfilled posts, st2) \<Rightarrow> (Returns posts, st2)
                     | (Pending, st2) \<Rightarrow> (Suspended, st2)
                     | (Rejected _, st2) \<Rightarrow> (Returns (JSArray []), st2))
              in case inner of
                   Returns v \<Rightarrow> (Fulfilled v, st2)
                 | Suspended \<Rightarrow> (Pending, st2)
                 | RunsOn \<Rightarrow> (Rejected error, st2)))"

subsection \<open>getBlogPostBySlug\<close>

text \<open>
  \<open>String.prototype.trim\<close> strips the WhiteSpace and LineTerminator code points of
  ECMAScript from both ends.
\<close>

definition is_js_whitespace :: "16 word \<Rightarrow> bool" where
  "is_js_whitespace c =
     (unat c \<in> {0x09, 0x0A, 0x0B, 0x0C, 0x0D, 0x20, 0xA0, 0x1680, 0x2028, 0x2029, 0x202F,
                 0x205F, 0x3000, 0xFEFF}
      \<or> (0x2000 \<le> unat c \<and> unat c \<le> 0x200A))"

definition js_trim :: "jsstr \<Rightarrow> jsstr" where
  "js_trim s = rev (dropWhile is_js_whitespace (rev (dropWhile is_js_whitespace s)))"

text \<open>
  The guard \<open>!slug || typeof slug !== 'string' || slug.trim().length === 0\<close>, on any
  value the caller may pass.
\<close>

fun invalid_slug :: "jsval \<Rightarrow> bool" where
  "invalid_slug (JSString s) = (\<not> truthy (JSString s) \<or> length (js_trim s) = 0)"
| "invalid_slug _ = True"

definition getBlogPostBySlug_variables :: "HashnodeService \<Rightarrow> jsstr \<Rightarrow> (jsstr \<times> jsval) list" where
  "getBlogPostBySlug_variables this cleanSlug =
     [(ascii ''host'', JSString (publicationHost this)),
      (ascii ''slug'', JSString cleanSlug)]"

text \<open>The body of each of the two \<open>try\<close> blocks of \<open>getBlogPostBySlug\<close>.\<close>

definition getBlogPostBySlug_try ::
  "('w, GraphQLResponse) runtime \<Rightarrow> HashnodeService \<Rightarrow> bool \<Rightarrow> (jsstr \<times> jsval) list
     \<Rightarrow> 'w net \<Rightarrow> jsval promise \<times> 'w net" where
  "getBlogPostBySlug_try rt this extended vars st =
     (case executeQuery rt this (HashnodeQueries_getBlogPostBySlug extended) vars st of
        (Pending, st') \<Rightarrow> (Pending, st')
      | (Rejected e, st') \<Rightarrow> (Rejected e, st')
      | (Fulfilled response, st') \<Rightarrow>
          (case and_then (validateResponse response) (\<lambda>d.
                and_then (get_prop d (ascii ''publication'')) (\<lambda>publication.
                get_prop publication (ascii ''post''))) of
             Inl e \<Rightarrow> (Rejected e, st')
           | Inr post \<Rightarrow> (Fulfilled post, st')))"

definition HashnodeService_getBlogPostBySlug ::
  "('w, GraphQLResponse) runtime \<Rightarrow> HashnodeService \<Rightarrow> jsval \<Rightarrow> 'w net
     \<Rightarrow> jsval promise \<times> 'w net" where
  "HashnodeService_getBlogPostBySlug rt this slug st =
     (if invalid_slug slug then (Rejected InvalidSlugParameter, st)
      else
        (let cleanSlug = (case slug of JSString s \<Rightarrow> js_trim s | _ \<Rightarrow> []);
             vars = getBlogPostBySlug_variables this cleanSlug
         in case getBlogPostBySlug_try rt this True vars st of
              (Fulfilled post, st1) \<Rightarrow> (Fulfilled post, st1)
            | (Pending, st1) \<Rightarrow> (Pending, st1)
            | (Rejected error, st1) \<Rightarrow>
                (case getBlogPostBySlug_try rt this False vars st1 of
                   (Fulfilled post, st2) \<Rightarrow> (Fulfilled post, st2)
                 | (Pending, st2) \<Rightarrow> (Pending, st2)
                 | (Rejected _, st2) \<Rightarrow> (Rejected error, st2))))"

section \<open>Facade (index.js)\<close>

text \<open>\<open>try { return await hashnodeService.getBlogPosts(count); } catch { return []; }\<close>\<close>

definition getBlogPosts ::
  "('w, GraphQLResponse) runtime \<Rightarrow> jsnum option \<Rightarrow> 'w net \<Rightarrow> jsval promise \<times> 'w net" where
  "getBlogPosts rt count st =
     (case HashnodeService_getBlogPosts rt (hashnodeService rt) count st of
        (Rejected _, st') \<Rightarrow> (Fulfilled (JSArray []), st')
      | (Pending, st') \<Rightarrow> (Pending, st')
      | (Fulfilled posts, st') \<Rightarrow> (Fulfilled posts, st'))"

text \<open>\<open>try { return await hashnodeService.getBlogPostBySlug(slug); } catch { return null; }\<close>\<close>

definition getBlogPostBySlug ::
  "('w, GraphQLResponse) runtime \<Rightarrow> jsval \<Rightarrow> 'w net \<Rightarrow> jsval promise \<times> 'w net" where
  "getBlogPostBySlug rt slug st =
     (case HashnodeService_getBlogPostBySlug rt (hashnodeService rt) slug st of
        (Rejected _, st') \<Rightarrow> (Fulfilled JSNull, st')
      | (Pending, st') \<Rightarrow> (Pending, st')
      | (Fulfilled post, st') \<Rightarrow> (Fulfilled post, st'))"

section \<open>Sample environments and inputs\<close>

text \<open>
  A remote side that refuses every connection: \<open>fetch\<close> rejects, with a message that
  tells the first call from the later ones. The state of the remote counts the calls.
\<close>

definition refusing_runtime :: "(nat, GraphQLResponse) runtime" where
  "refusing_runtime =
     \<lparr> fetch = (\<lambda>w call.
                 (Rejects (ErrorInstance (if w = 0 then ascii ''first'' else ascii ''later'')),
                  Suc w)),
       EdgeRuntime_defined = False,
       NEXT_RUNTIME_defined = False,
       HASHNODE_PUBLICATION_HOST = None \<rparr>"

text \<open>A remote side that never answers: the promise of \<open>fetch\<close> stays pending.\<close>

definition silent_runtime :: "(nat, GraphQLResponse) runtime" where
  "silent_runtime =
     \<lparr> fetch = (\<lambda>w call. (NeverSettles, Suc w)),
       EdgeRuntime_defined = False,
       NEXT_RUNTIME_defined = False,
       HASHNODE_PUBLICATION_HOST = None \<rparr>"

definition fresh_net :: "nat net" where
  "fresh_net = \<lparr> remote = 0, calls = [] \<rparr>"

text \<open>A stand-in for the keyed hash, to run the signature functions on.\<close>

definition sample_hmac :: hmac_sha256 where
  "sample_hmac key msg = of_nat (sum_list (map unat key) + 31 * sum_list (map unat msg))"

text \<open>Three webhook payloads and their JSON texts.\<close>

definition webhook_payload :: "jsstr \<Rightarrow> jsstr \<Rightarrow> jsval" where
  "webhook_payload event timestamp =
     JSObject [(ascii ''event'', JSString event),
               (ascii ''data'', JSObject []),
               (ascii ''publication'', JSObject [(ascii ''id'', JSString (ascii ''p1''))]),
               (ascii ''timestamp'', JSString timestamp)]"

definition published_payload :: jsval where
  "published_payload = webhook_payload (ascii ''POST_PUBLISHED'') (ascii ''2024-01-01T00:00:00Z'')"

definition published_text :: jsstr where
  "published_text = ascii
     ''{\"event\":\"POST_PUBLISHED\",\"data\":{},\"publication\":{\"id\":\"p1\"},\"timestamp\":\"2024-01-01T00:00:00Z\"}''"

definition unstamped_payload :: jsval where
  "unstamped_payload = webhook_payload (ascii ''POST_PUBLISHED'') []"

definition unstamped_text :: jsstr where
  "unstamped_text = ascii
     ''{\"event\":\"POST_PUBLISHED\",\"data\":{},\"publication\":{\"id\":\"p1\"},\"timestamp\":\"\"}''"

definition archived_payload :: jsval where
  "archived_payload = webhook_payload (ascii ''POST_ARCHIVED'') (ascii ''2024-01-01T00:00:00Z'')"

definition archived_text :: jsstr where
  "archived_text = ascii
     ''{\"event\":\"POST_ARCHIVED\",\"data\":{},\"publication\":{\"id\":\"p1\"},\"timestamp\":\"2024-01-01T00:00:00Z\"}''"

text \<open>
  \<open>JSON.parse\<close> and \<open>JSON.stringify\<close> on these three: each text with its value, a
  SyntaxError on every other text.
\<close>

definition sample_JSON_parse :: "jsstr \<Rightarrow> env_error + jsval" where
  "sample_JSON_parse s =
     (if s = published_text then Inr published_payload
      else if s = unstamped_text then Inr unstamped_payload
      else if s = archived_text then Inr archived_payload
      else Inl (ErrorInstance (ascii ''Unexpected token'')))"


text \<open>The byte that holds an ASCII code unit.\<close>

definition byte_of :: "16 word \<Rightarrow> 8 word" where
  "byte_of c = of_nat (unat c)"

section \<open>Properties\<close>

subsection \<open>Hex digests and buffers\<close>

lemma of_nat_8_inj:
  assumes "n < 256" "m < 256" "(of_nat n :: 8 word) = of_nat m"
  shows "n = m"
proof -
  from assms(3) have "unat (of_nat n :: 8 word) = unat (of_nat m :: 8 word)" by simp
  then have "n mod 256 = m mod 256" by (simp add: unat_of_nat)
  with assms(1,2) show ?thesis by simp
qed

lemma hex_digit_ascii: "d < 16 \<Longrightarrow> unat (hex_digit d) < 128"
  by (auto simp: hex_digit_def unat_of_nat simp del: of_nat_add)

lemma length_digest_hex: "length (digest_hex w) = 64"
  by (simp add: digest_hex_def)

lemma digest_hex_ascii: "c \<in> set (digest_hex w) \<Longrightarrow> unat c < 128"
  by (auto simp: digest_hex_def intro!: hex_digit_ascii)

lemma utf8_head_high:
  assumes "128 \<le> u" "u < 0x110000"
  shows "\<exists>n bs. utf8_of_code_point u = of_nat n # bs \<and> 128 \<le> n \<and> n < 256"
proof -
  consider "u < 0x800" | "0x800 \<le> u" "u < 0x10000" | "0x10000 \<le> u" by linarith
  then show ?thesis
  proof cases
    case 1
    then have "0xC0 + u div 64 < 256" by simp
    with 1 assms show ?thesis unfolding utf8_of_code_point_def
      by (intro exI[of _ "0xC0 + u div 64"]) simp
  next
    case 2
    then have "0xE0 + u div 4096 < 256" by simp
    with 2 assms show ?thesis unfolding utf8_of_code_point_def
      by (intro exI[of _ "0xE0 + u div 4096"]) simp
  next
    case 3
    with assms have "0xF0 + u div 262144 < 256" by simp
    with 3 assms show ?thesis unfolding utf8_of_code_point_def
      by (intro exI[of _ "0xF0 + u div 262144"]) simp
  qed
qed

lemma high_head_not_ascii:
  assumes "utf8_of_code_point u @ rest = map byte_of t" "128 \<le> u" "u < 0x110000"
    and "\<forall>c\<in>set t. unat c < 128"
  shows False
proof -
  from utf8_head_high[OF assms(2,3)] obtain n bs where
    h: "utf8_of_code_point u = of_nat n # bs" "128 \<le> n" "n < 256" by blast
  with assms(1) obtain c cs where t: "t = c # cs" "(of_nat n :: 8 word) = byte_of c"
    by (cases t) auto
  with assms(4) have "unat c < 128" by simp
  with t(2) h(3) have "n = unat c" unfolding byte_of_def by (intro of_nat_8_inj) auto
  with h(2) \<open>unat c < 128\<close> show False by simp
qed

lemma ascii_head_step:
  assumes "utf8_of_code_point (unat c) @ rest = map byte_of t" "unat c < 128"
    and "\<forall>x\<in>set t. unat x < 128"
  shows "\<exists>t'. t = c # t' \<and> rest = map byte_of t'"
proof -
  from assms(2) have "utf8_of_code_point (unat c) = [of_nat (unat c)]"
    by (simp add: utf8_of_code_point_def)
  with assms(1) obtain x t' where t: "t = x # t'" "(of_nat (unat c) :: 8 word) = byte_of x"
    "rest = map byte_of t'"
    by (cases t) auto
  with assms(3) have "unat x < 128" by simp
  with t(2) assms(2) have "unat c = unat x" unfolding byte_of_def by (intro of_nat_8_inj) auto
  then have "c = x" by (simp add: word_unat_eq_iff)
  with t show ?thesis by simp
qed

lemma surrogate_pair_range:
  assumes "is_high_surrogate c" "is_low_surrogate d"
  shows "128 \<le> 0x10000 + (unat c - 0xD800) * 1024 + (unat d - 0xDC00)"
    and "0x10000 + (unat c - 0xD800) * 1024 + (unat d - 0xDC00) < 0x110000"
  using assms unfolding is_high_surrogate_def is_low_surrogate_def by linarith+

lemma unat_16_range: "unat (c :: 16 word) < 0x110000"
proof -
  have "unat c < 2 ^ 16" using unsigned_less[of c] by simp
  then show ?thesis by simp
qed

text \<open>
  Only an ASCII string encodes to the bytes of an ASCII string: every other code unit
  starts a sequence whose first byte is 0x80 or more.
\<close>

lemma Buffer_from_ascii_inj:
  "Buffer_from s = map byte_of t \<Longrightarrow> \<forall>c\<in>set t. unat c < 128 \<Longrightarrow> s = t"
proof (induction s arbitrary: t rule: Buffer_from.induct)
  case 1
  then show ?case by simp
next
  case (2 c)
  show ?case
  proof (cases "is_high_surrogate c \<or> is_low_surrogate c")
    case True
    with 2(1) have "utf8_of_code_point 0xFFFD @ [] = map byte_of t" by simp
    from high_head_not_ascii[OF this _ _ 2(2)] show ?thesis by simp
  next
    case False
    with 2(1) have e: "utf8_of_code_point (unat c) @ [] = map byte_of t" by simp
    show ?thesis
    proof (cases "unat c < 128")
      case True
      from ascii_head_step[OF e True 2(2)] show ?thesis by auto
    next
      case False
      with high_head_not_ascii[OF e _ unat_16_range 2(2)] show ?thesis by simp
    qed
  qed
next
  case (3 c d cs)
  show ?case
  proof (cases "is_high_surrogate c \<and> is_low_surrogate d")
    case True
    with 3(4) have e: "utf8_of_code_point (0x10000 + (unat c - 0xD800) * 1024 + (unat d - 0xDC00))
        @ Buffer_from cs = map byte_of t" by simp
    from True have hc: "is_high_surrogate c" and ld: "is_low_surrogate d" by simp_all
    from high_head_not_ascii[OF e surrogate_pair_range[OF hc ld] 3(5)] show ?thesis ..
  next
    case np: False
    show ?thesis
    proof (cases "is_high_surrogate c \<or> is_low_surrogate c")
      case True
      with np 3(4) have "utf8_of_code_point 0xFFFD @ Buffer_from (d # cs) = map byte_of t"
        by (auto split: if_splits)
      from high_head_not_ascii[OF this _ _ 3(5)] show ?thesis by simp
    next
      case ns: False
      with np 3(4) have e: "utf8_of_code_point (unat c) @ Buffer_from (d # cs) = map byte_of t"
        by (auto split: if_splits)
      show ?thesis
      proof (cases "unat c < 128")
        case True
        from ascii_head_step[OF e True 3(5)] obtain t' where
          t: "t = c # t'" "Buffer_from (d # cs) = map byte_of t'" by blast
        with 3(5) have "\<forall>x\<in>set t'. unat x < 128" by simp
        from 3(3)[OF np ns t(2) this] t(1) show ?thesis by simp
      next
        case False
        with high_head_not_ascii[OF e _ unat_16_range 3(5)] show ?thesis by simp
      qed
    qed
  qed
qed

lemma Buffer_from_ascii: "\<forall>c\<in>set t. unat c < 128 \<Longrightarrow> Buffer_from t = map byte_of t"
proof (induction t rule: Buffer_from.induct)
  case 1
  then show ?case by simp
next
  case (2 c)
  then show ?case
    by (simp add: is_high_surrogate_def is_low_surrogate_def utf8_of_code_point_def byte_of_def)
next
  case (3 c d cs)
  then show ?case
    by (simp add: is_high_surrogate_def is_low_surrogate_def utf8_of_code_point_def byte_of_def)
qed

lemma Buffer_from_eq_ascii:
  assumes "\<forall>c\<in>set t. unat c < 128"
  shows "Buffer_from s = Buffer_from t \<longleftrightarrow> s = t"
  using assms Buffer_from_ascii_inj[of s t] Buffer_from_ascii[of t] by auto

lemma length_Buffer_from_digest: "length (Buffer_from (digest_hex w)) = 64"
proof -
  have "\<forall>c\<in>set (digest_hex w). unat c < 128" using digest_hex_ascii by blast
  from Buffer_from_ascii[OF this] show ?thesis by (simp add: length_digest_hex)
qed

lemma generateWebhookSignature_nonempty: "generateWebhookSignature hmac payload secret \<noteq> []"
  using length_digest_hex[of "hmac secret payload"]
  by (auto simp: generateWebhookSignature_def)

text \<open>
  What \<open>verifyWebhookSignature\<close> computes: whether no argument is empty and the signature
  is the hex digest.
\<close>

lemma verifyWebhookSignature_eq:
  "verifyWebhookSignature hmac payload signature secret =
     Inr (payload \<noteq> [] \<and> signature \<noteq> [] \<and> secret \<noteq> [] \<and>
          signature = generateWebhookSignature hmac payload secret)"
proof -
  let ?e = "digest_hex (hmac secret payload)"
  have a: "\<forall>c\<in>set ?e. unat c < 128" using digest_hex_ascii by blast
  have "timingSafeEqual (Buffer_from signature) (Buffer_from ?e) = Inr True \<longleftrightarrow> signature = ?e"
    using Buffer_from_eq_ascii[OF a, of signature] by (auto simp: timingSafeEqual_def)
  moreover have "timingSafeEqual (Buffer_from signature) (Buffer_from ?e) = Inl RangeError
     \<or> (\<exists>b. timingSafeEqual (Buffer_from signature) (Buffer_from ?e) = Inr b)"
    by (simp add: timingSafeEqual_def)
  ultimately show ?thesis
    unfolding verifyWebhookSignature_def verifyWebhookSignature_try_def
      generateWebhookSignature_def Let_def
    by (auto split: sum.splits)
qed

lemma verifyWebhookSignature_try_throws:
  "verifyWebhookSignature_try hmac payload signature secret = Inl e \<Longrightarrow>
     length (Buffer_from signature) \<noteq> 64"
  by (simp add: verifyWebhookSignature_try_def timingSafeEqual_def length_Buffer_from_digest
      split: if_splits)

subsection \<open>Signatures\<close>

text \<open>
  C7. For every non-empty body and non-empty secret, verifying the body against the
  signature that \<open>generateWebhookSignature\<close> makes for it with the same secret returns
  true, whatever the keyed hash is.
\<close>

theorem verify_generated_signature:
  assumes "payload \<noteq> []" and "secret \<noteq> []"
  shows "verifyWebhookSignature hmac payload
           (generateWebhookSignature hmac payload secret) secret = Inr True"
  using assms generateWebhookSignature_nonempty[of hmac payload secret]
  by (simp add: verifyWebhookSignature_eq)

text \<open>C7 at the body \<open>{}\<close> and the secret \<open>s3cret\<close>.\<close>

theorem verify_generated_signature_witness:
  "ascii ''{}'' \<noteq> [] \<and> ascii ''s3cret'' \<noteq> [] \<and>
   verifyWebhookSignature sample_hmac (ascii ''{}'')
     (generateWebhookSignature sample_hmac (ascii ''{}'') (ascii ''s3cret'')) (ascii ''s3cret'')
   = Inr True"
proof -
  have p: "ascii ''{}'' \<noteq> []" and k: "ascii ''s3cret'' \<noteq> []" by (simp_all add: ascii_def)
  from p k verify_generated_signature[OF p k, of sample_hmac] show ?thesis by simp
qed

text \<open>
  C8. \<open>verifyWebhookSignature\<close> never throws, on any three strings: it returns a
  boolean. It returns false when an argument is empty, when the signature's byte length
  is not that of the hex digest (64), when the signature is not the expected one, and
  when the body of its \<open>try\<close> block throws.
\<close>

theorem verifyWebhookSignature_never_throws:
  "(\<exists>b. verifyWebhookSignature hmac payload signature secret = Inr b)
   \<and> (payload = [] \<or> signature = [] \<or> secret = [] \<longrightarrow>
        verifyWebhookSignature hmac payload signature secret = Inr False)
   \<and> (length (Buffer_from signature)
         \<noteq> length (Buffer_from (generateWebhookSignature hmac payload secret)) \<longrightarrow>
        verifyWebhookSignature hmac payload signature secret = Inr False)
   \<and> (length (Buffer_from (generateWebhookSignature hmac payload secret)) = 64)
   \<and> (signature \<noteq> generateWebhookSignature hmac payload secret \<longrightarrow>
        verifyWebhookSignature hmac payload signature secret = Inr False)
   \<and> ((\<exists>e. verifyWebhookSignature_try hmac payload signature secret = Inl e) \<longrightarrow>
        verifyWebhookSignature hmac payload signature secret = Inr False)"
proof -
  have len: "length (Buffer_from (generateWebhookSignature hmac payload secret)) = 64"
    by (simp add: generateWebhookSignature_def length_Buffer_from_digest)
  have "signature \<noteq> generateWebhookSignature hmac payload secret"
    if "length (Buffer_from signature) \<noteq> 64"
    using that len by auto
  moreover have "length (Buffer_from signature) \<noteq> 64"
    if "verifyWebhookSignature_try hmac payload signature secret = Inl e" for e
    using that by (rule verifyWebhookSignature_try_throws)
  ultimately show ?thesis
    using len by (auto simp: verifyWebhookSignature_eq)
qed

text \<open>
  C8 at an empty signature, where every condition for false holds, and at the
  signature \<open>deadbeef\<close>, which is not empty and has the wrong length.
\<close>

theorem verifyWebhookSignature_never_throws_witness:
  "verifyWebhookSignature sample_hmac (ascii ''{}'') [] (ascii ''s3cret'') = Inr False
   \<and> verifyWebhookSignature_try sample_hmac (ascii ''{}'') [] (ascii ''s3cret'') = Inl RangeError
   \<and> length (Buffer_from (ascii ''deadbeef'')) = 8
   \<and> verifyWebhookSignature sample_hmac (ascii ''{}'') (ascii ''deadbeef'') (ascii ''s3cret'')
       = Inr False"
proof -
  note a = verifyWebhookSignature_never_throws[of sample_hmac "ascii ''{}''" "[]" "ascii ''s3cret''"]
  note b = verifyWebhookSignature_never_throws[of sample_hmac "ascii ''{}''" "ascii ''deadbeef''"
      "ascii ''s3cret''"]
  have t: "verifyWebhookSignature_try sample_hmac (ascii ''{}'') [] (ascii ''s3cret'') = Inl RangeError"
    using length_Buffer_from_digest[of "sample_hmac (ascii ''s3cret'') (ascii ''{}'')"]
    by (auto simp: verifyWebhookSignature_try_def timingSafeEqual_def Let_def)
  have l: "length (Buffer_from (ascii ''deadbeef'')) = 8"
    by (simp add: ascii_def is_high_surrogate_def is_low_surrogate_def utf8_of_code_point_def)
  from a have 1: "verifyWebhookSignature sample_hmac (ascii ''{}'') [] (ascii ''s3cret'') = Inr False"
    by blast
  from b l have 2: "verifyWebhookSignature sample_hmac (ascii ''{}'') (ascii ''deadbeef'')
      (ascii ''s3cret'') = Inr False"
    by simp
  from 1 t l 2 show ?thesis by simp
qed

subsection \<open>Payload parsing\<close>

lemma webhook_keys_distinct:
  "ascii ''event'' \<noteq> ascii ''publication''"
  "ascii ''event'' \<noteq> ascii ''timestamp''"
  "ascii ''publication'' \<noteq> ascii ''timestamp''"
  by (simp_all add: ascii_def)

lemma ascii_eq_Nil [simp]: "ascii s = [] \<longleftrightarrow> s = []"
  by (simp add: ascii_def)

lemma includes_event_truthy: "includes_event validEvents ev \<Longrightarrow> truthy ev"
  by (cases ev) (auto simp: validEvents_def ascii_def)


lemma validate_webhook_data_falsy:
  assumes "k \<in> {ascii ''event'', ascii ''publication'', ascii ''timestamp''}"
    and "\<not> truthy (case map_of props k of None \<Rightarrow> JSUndefined | Some v \<Rightarrow> v)"
  shows "validate_webhook_data (JSObject props) = Inl MissingRequiredFields"
  using assms by (auto simp: validate_webhook_data_def)



lemma sample_texts_distinct:
  "published_text \<noteq> unstamped_text" "published_text \<noteq> archived_text"
  "unstamped_text \<noteq> archived_text"
  by (simp_all add: published_text_def unstamped_text_def archived_text_def ascii_def)






text \<open>
  C10. Let a payload object have the field \<open>event\<close>, \<open>publication\<close> or \<open>timestamp\<close>
  with a falsy value (the empty string, 0, NaN, false, null or undefined). Then
  \<open>parseWebhookPayload\<close> throws the missing-fields error on it, as it does on the object
  without that field, whether the object is passed as it is or as the text that
  \<open>JSON.parse\<close> reads it from.
\<close>

theorem parseWebhookPayload_falsy_as_absent:
  assumes "k \<in> {ascii ''event'', ascii ''publication'', ascii ''timestamp''}"
    and "map_of props k = Some v" and "\<not> truthy v"
  shows "parseWebhookPayload JSON_parse (JSObject props) = Inl MissingRequiredFields
       \<and> parseWebhookPayload JSON_parse (JSObject (AList.delete k props))
           = Inl MissingRequiredFields
       \<and> (JSON_parse s = Inr (JSObject props) \<longrightarrow>
            parseWebhookPayload JSON_parse (JSString s) = Inl MissingRequiredFields)"
proof -
  from assms(2,3) have "\<not> truthy (case map_of props k of None \<Rightarrow> JSUndefined | Some v \<Rightarrow> v)"
    by simp
  from validate_webhook_data_falsy[OF assms(1) this]
  have 1: "validate_webhook_data (JSObject props) = Inl MissingRequiredFields" .
  have "\<not> truthy (case map_of (AList.delete k props) k of None \<Rightarrow> JSUndefined | Some v \<Rightarrow> v)"
    by (simp add: delete_conv')
  from validate_webhook_data_falsy[OF assms(1) this]
  have 2: "validate_webhook_data (JSObject (AList.delete k props)) = Inl MissingRequiredFields" .
  from 1 2 show ?thesis by (simp add: parseWebhookPayload_def)
qed

text \<open>C10 at a payload with \<open>timestamp: 0\<close>, as an object and as a text.\<close>

theorem parseWebhookPayload_falsy_as_absent_witness:
  "ascii ''timestamp'' \<in> {ascii ''event'', ascii ''publication'', ascii ''timestamp''}
   \<and> \<not> truthy (JSNumber (Finite 0))
   \<and> parseWebhookPayload sample_JSON_parse
        (JSObject [(ascii ''event'', JSString (ascii ''POST_UPDATED'')),
                   (ascii ''publication'', JSObject []),
                   (ascii ''timestamp'', JSNumber (Finite 0))]) = Inl MissingRequiredFields
   \<and> parseWebhookPayload sample_JSON_parse
        (JSObject [(ascii ''event'', JSString (ascii ''POST_UPDATED'')),
                   (ascii ''publication'', JSObject [])]) = Inl MissingRequiredFields
   \<and> parseWebhookPayload sample_JSON_parse (JSString unstamped_text) = Inl MissingRequiredFields"
proof -
  let ?props = "[(ascii ''event'', JSString (ascii ''POST_UPDATED'')),
                   (ascii ''publication'', JSObject []),
                   (ascii ''timestamp'', JSNumber (Finite 0))]"
  have k: "ascii ''timestamp'' \<in> {ascii ''event'', ascii ''publication'', ascii ''timestamp''}"
    by simp
  have m: "map_of ?props (ascii ''timestamp'') = Some (JSNumber (Finite 0))"
    by (simp add: ascii_def)
  have f: "\<not> truthy (JSNumber (Finite 0))" by simp
  have d: "AList.delete (ascii ''timestamp'') ?props
      = [(ascii ''event'', JSString (ascii ''POST_UPDATED'')), (ascii ''publication'', JSObject [])]"
    by (simp add: ascii_def AList.delete_eq)
  have m': "map_of [(ascii ''event'', JSString (ascii ''POST_PUBLISHED'')),
               (ascii ''data'', JSObject []),
               (ascii ''publication'', JSObject [(ascii ''id'', JSString (ascii ''p1''))]),
               (ascii ''timestamp'', JSString [])] (ascii ''timestamp'') = Some (JSString [])"
    by (simp add: ascii_def)
  have f': "\<not> truthy (JSString [])" by simp
  have p: "sample_JSON_parse unstamped_text = Inr (JSObject
              [(ascii ''event'', JSString (ascii ''POST_PUBLISHED'')),
               (ascii ''data'', JSObject []),
               (ascii ''publication'', JSObject [(ascii ''id'', JSString (ascii ''p1''))]),
               (ascii ''timestamp'', JSString [])])"
    using sample_texts_distinct
    by (simp add: sample_JSON_parse_def unstamped_payload_def webhook_payload_def)
  from parseWebhookPayload_falsy_as_absent[OF k m f, of sample_JSON_parse] d
    parseWebhookPayload_falsy_as_absent[OF k m' f', of sample_JSON_parse unstamped_text] p k f
  show ?thesis by simp
qed

subsection \<open>Calls made by the transport and the service\<close>

lemma GraphQLClient_query_calls:
  "calls (snd (GraphQLClient_query rt u payload options st)) =
     calls st @ [GraphQLClient_request rt u payload options]"
  unfolding GraphQLClient_query_def Let_def
  by (simp split: prod.splits env_promise.splits)

lemma executeQuery_calls:
  "calls (snd (executeQuery rt this q vars st)) = calls st @ [executeQuery_call rt this q vars]"
  unfolding executeQuery_def executeQuery_call_def by (rule GraphQLClient_query_calls)

lemma JSON_properties_eq:
  "JSON_properties kvs =
     map (\<lambda>kv. (fst kv, JSON_value (snd kv))) (filter (\<lambda>kv. snd kv \<noteq> JSUndefined) kvs)"
  by (simp add: JSON_properties_def)


lemma variables_executeQuery_call:
  "variables (body (executeQuery_call rt this q vars)) = Some (JSON_properties vars)"
  by (simp add: executeQuery_call_def GraphQLClient_request_def JSON_stringify_payload_def Let_def)


lemma getBlogPosts_try_snd:
  "snd (getBlogPosts_try rt this extended vars st) =
     snd (executeQuery rt this (HashnodeQueries_getBlogPosts extended) vars st)"
  unfolding getBlogPosts_try_def by (simp split: prod.splits promise.splits sum.splits)


lemma getBlogPosts_try_calls:
  "getBlogPosts_try rt this extended vars st = (r, st') \<Longrightarrow>
     calls st' = calls st @ [executeQuery_call rt this (HashnodeQueries_getBlogPosts extended) vars]"
  using getBlogPosts_try_snd[of rt this extended vars st]
    executeQuery_calls[of rt this "HashnodeQueries_getBlogPosts extended" vars st]
  by simp

text \<open>With the remote side that refuses every connection, each query is a network failure.\<close>

lemma refusing_query:
  "GraphQLClient_query refusing_runtime u payload options st =
     (Rejected (NetworkError (if remote st = 0 then ascii ''first'' else ascii ''later'')),
      \<lparr> remote = Suc (remote st),
        calls = calls st @ [GraphQLClient_request refusing_runtime u payload options] \<rparr>)"
  by (simp add: GraphQLClient_query_def refusing_runtime_def network_failure_def Let_def)

lemma refusing_getBlogPostBySlug_try:
  "getBlogPostBySlug_try refusing_runtime this extended vars st =
     (Rejected (NetworkError (if remote st = 0 then ascii ''first'' else ascii ''later'')),
      \<lparr> remote = Suc (remote st),
        calls = calls st @ [executeQuery_call refusing_runtime this
                              (HashnodeQueries_getBlogPostBySlug extended) vars] \<rparr>)"
  by (simp add: getBlogPostBySlug_try_def executeQuery_def executeQuery_call_def refusing_query)

lemma refusing_getBlogPosts_try:
  "getBlogPosts_try refusing_runtime this extended vars st =
     (Rejected (NetworkError (if remote st = 0 then ascii ''first'' else ascii ''later'')),
      \<lparr> remote = Suc (remote st),
        calls = calls st @ [executeQuery_call refusing_runtime this
                              (HashnodeQueries_getBlogPosts extended) vars] \<rparr>)"
  by (simp add: getBlogPosts_try_def executeQuery_def executeQuery_call_def refusing_query)

subsection \<open>Slugs\<close>

lemma js_trim_empty_iff: "js_trim s = [] \<longleftrightarrow> (\<forall>c\<in>set s. is_js_whitespace c)"
proof
  assume "js_trim s = []"
  then have "dropWhile is_js_whitespace (rev (dropWhile is_js_whitespace s)) = []"
    by (simp add: js_trim_def)
  then have a: "\<forall>c\<in>set (dropWhile is_js_whitespace s). is_js_whitespace c"
    by (simp add: dropWhile_eq_Nil_conv)
  show "\<forall>c\<in>set s. is_js_whitespace c"
  proof (cases "dropWhile is_js_whitespace s")
    case Nil
    then show ?thesis by (simp add: dropWhile_eq_Nil_conv)
  next
    case (Cons x xs)
    then have "\<not> is_js_whitespace x" using hd_dropWhile[of is_js_whitespace s] by simp
    with a Cons show ?thesis by simp
  qed
next
  assume "\<forall>c\<in>set s. is_js_whitespace c"
  then have d: "dropWhile is_js_whitespace s = []" by (simp add: dropWhile_eq_Nil_conv)
  show "js_trim s = []" unfolding js_trim_def d by simp
qed

lemma invalid_slug_iff:
  "invalid_slug slug \<longleftrightarrow> (\<forall>s. slug = JSString s \<longrightarrow> (\<forall>c\<in>set s. is_js_whitespace c))"
  by (cases slug) (auto simp: js_trim_empty_iff)

lemma valid_slug:
  assumes "\<exists>c\<in>set s. \<not> is_js_whitespace c"
  shows "\<not> invalid_slug (JSString s)"
  using assms by (simp add: invalid_slug_iff)

lemma sample_slug:
  "\<exists>c\<in>set (ascii '' my-post ''). \<not> is_js_whitespace c"
  "js_trim (ascii '' my-post '') = ascii ''my-post''"
  by (simp_all add: ascii_def is_js_whitespace_def js_trim_def)

subsection \<open>Post by slug\<close>

text \<open>
  The ways in which the body of a \<open>try\<close> block of \<open>getBlogPostBySlug\<close> throws: the
  transport rejects, the envelope lists errors, the envelope has no data, or a read of
  \<open>data.publication.post\<close> is a TypeError.
\<close>

lemma getBlogPostBySlug_try_rejected_iff:
  "fst (getBlogPostBySlug_try rt this extended vars st) = Rejected e \<longleftrightarrow>
     (case fst (executeQuery rt this (HashnodeQueries_getBlogPostBySlug extended) vars st) of
        Pending \<Rightarrow> False
      | Rejected e' \<Rightarrow> e = e'
      | Fulfilled response \<Rightarrow>
          (case validateResponse response of
             Inl e' \<Rightarrow> e = e'
           | Inr d \<Rightarrow>
               e = TypeError \<and>
               (d = JSUndefined \<or> d = JSNull
                \<or> get_prop d (ascii ''publication'') = Inr JSUndefined
                \<or> get_prop d (ascii ''publication'') = Inr JSNull)))"
proof -
  have g: "(get_prop v k = Inl e) = (e = TypeError \<and> (v = JSUndefined \<or> v = JSNull))" for v k
    by (cases v) auto
  have p: "(and_then (get_prop d (ascii ''publication'')) (\<lambda>p. get_prop p (ascii ''post'')) = Inl e)
      = (e = TypeError \<and> (d = JSUndefined \<or> d = JSNull
                \<or> get_prop d (ascii ''publication'') = Inr JSUndefined
                \<or> get_prop d (ascii ''publication'') = Inr JSNull))" for d
    by (cases "get_prop d (ascii ''publication'')") (auto simp: and_then_def g)
  obtain r st' where q:
    "executeQuery rt this (HashnodeQueries_getBlogPostBySlug extended) vars st = (r, st')"
    by (cases "executeQuery rt this (HashnodeQueries_getBlogPostBySlug extended) vars st")
  show ?thesis
  proof (cases r)
    case Pending
    with q show ?thesis by (simp add: getBlogPostBySlug_try_def)
  next
    case (Rejected e')
    with q show ?thesis by (auto simp: getBlogPostBySlug_try_def)
  next
    case (Fulfilled response)
    show ?thesis
    proof (cases "validateResponse response")
      case (Inl e')
      with q Fulfilled show ?thesis by (auto simp: getBlogPostBySlug_try_def and_then_def)
    next
      case (Inr d)
      have "fst (getBlogPostBySlug_try rt this extended vars st) = Rejected e \<longleftrightarrow>
          and_then (get_prop d (ascii ''publication'')) (\<lambda>p. get_prop p (ascii ''post'')) = Inl e"
        using q Fulfilled Inr
        by (cases "and_then (get_prop d (ascii ''publication'')) (\<lambda>p. get_prop p (ascii ''post''))")
           (simp_all add: getBlogPostBySlug_try_def and_then_def)
      with p[of d] q Fulfilled Inr show ?thesis by simp
    qed
  qed
qed

lemma validateResponse_throws:
  "validateResponse response = Inl e \<Longrightarrow>
     (\<exists>m. e = GraphQLErrors m) \<or> e = NoDataReturned"
  by (auto simp: validateResponse_def Let_def split: option.splits if_splits)

text \<open>
  C1. Let the slug be a string with a character that is not white space. If the body of
  the first \<open>try\<close> block (the extended query) throws \<open>e1\<close> and the body of the second (the
  basic query) throws \<open>e2\<close>, then \<open>HashnodeService.getBlogPostBySlug\<close> rejects with
  \<open>e1\<close>.
\<close>

theorem getBlogPostBySlug_rethrows_first:
  assumes "\<exists>c\<in>set s. \<not> is_js_whitespace c"
    and "getBlogPostBySlug_try rt this True (getBlogPostBySlug_variables this (js_trim s)) st
           = (Rejected e1, st1)"
    and "getBlogPostBySlug_try rt this False (getBlogPostBySlug_variables this (js_trim s)) st1
           = (Rejected e2, st2)"
  shows "HashnodeService_getBlogPostBySlug rt this (JSString s) st = (Rejected e1, st2)"
  using valid_slug[OF assms(1)] assms(2,3)
  unfolding HashnodeService_getBlogPostBySlug_def Let_def by simp

text \<open>
  C1 with the remote side that refuses every connection: the two attempts fail with
  different errors, and the caller gets the one of the first.
\<close>

theorem getBlogPostBySlug_rethrows_first_witness:
  "fst (getBlogPostBySlug_try refusing_runtime (hashnodeService refusing_runtime) True
          (getBlogPostBySlug_variables (hashnodeService refusing_runtime) (ascii ''my-post''))
          fresh_net) = Rejected (NetworkError (ascii ''first''))
   \<and> fst (getBlogPostBySlug_try refusing_runtime (hashnodeService refusing_runtime) False
          (getBlogPostBySlug_variables (hashnodeService refusing_runtime) (ascii ''my-post''))
          (snd (getBlogPostBySlug_try refusing_runtime (hashnodeService refusing_runtime) True
             (getBlogPostBySlug_variables (hashnodeService refusing_runtime) (ascii ''my-post''))
             fresh_net))) = Rejected (NetworkError (ascii ''later''))
   \<and> ascii ''first'' \<noteq> ascii ''later''
   \<and> fst (HashnodeService_getBlogPostBySlug refusing_runtime (hashnodeService refusing_runtime)
          (JSString (ascii '' my-post '')) fresh_net) = Rejected (NetworkError (ascii ''first''))"
proof -
  let ?svc = "hashnodeService refusing_runtime"
  let ?vars = "getBlogPostBySlug_variables ?svc (ascii ''my-post'')"
  let ?call = "\<lambda>ext. executeQuery_call refusing_runtime ?svc (HashnodeQueries_getBlogPostBySlug ext) ?vars"
  let ?st1 = "\<lparr> remote = Suc 0, calls = [?call True] \<rparr>"
  let ?st2 = "\<lparr> remote = Suc (Suc 0), calls = [?call True, ?call False] \<rparr>"
  have 1: "getBlogPostBySlug_try refusing_runtime ?svc True
      (getBlogPostBySlug_variables ?svc (js_trim (ascii '' my-post ''))) fresh_net
      = (Rejected (NetworkError (ascii ''first'')), ?st1)"
    by (simp add: refusing_getBlogPostBySlug_try fresh_net_def sample_slug(2))
  have 2: "getBlogPostBySlug_try refusing_runtime ?svc False
      (getBlogPostBySlug_variables ?svc (js_trim (ascii '' my-post ''))) ?st1
      = (Rejected (NetworkError (ascii ''later'')), ?st2)"
    by (simp add: refusing_getBlogPostBySlug_try sample_slug(2))
  have d: "ascii ''first'' \<noteq> ascii ''later''" by (simp add: ascii_def)
  from getBlogPostBySlug_rethrows_first[OF sample_slug(1) 1 2] 1 2 d
  show ?thesis by (simp add: sample_slug(2))
qed



text \<open>
  C6. If the slug is not a string, or is a string of white space only (the empty string
  among them), \<open>HashnodeService.getBlogPostBySlug\<close> rejects with the invalid-slug error
  and leaves the network as it was: no call is made.
\<close>

theorem getBlogPostBySlug_invalid_slug:
  assumes "(\<forall>s. slug \<noteq> JSString s)
           \<or> (\<exists>s. slug = JSString s \<and> (\<forall>c\<in>set s. is_js_whitespace c))"
  shows "HashnodeService_getBlogPostBySlug rt this slug st = (Rejected InvalidSlugParameter, st)
       \<and> calls_since st (snd (HashnodeService_getBlogPostBySlug rt this slug st)) = []"
proof -
  from assms have "invalid_slug slug" by (auto simp: invalid_slug_iff)
  then have "HashnodeService_getBlogPostBySlug rt this slug st = (Rejected InvalidSlugParameter, st)"
    by (simp add: HashnodeService_getBlogPostBySlug_def)
  then show ?thesis by (simp add: calls_since_def)
qed

text \<open>C6 at a number, at the empty string and at a string of a space, a tab and a line feed.\<close>

theorem getBlogPostBySlug_invalid_slug_witness:
  "HashnodeService_getBlogPostBySlug refusing_runtime (hashnodeService refusing_runtime)
     (JSNumber (Finite 7)) fresh_net = (Rejected InvalidSlugParameter, fresh_net)
   \<and> HashnodeService_getBlogPostBySlug refusing_runtime (hashnodeService refusing_runtime)
     (JSString []) fresh_net = (Rejected InvalidSlugParameter, fresh_net)
   \<and> is_js_whitespace 0x20 \<and> is_js_whitespace 0x09 \<and> is_js_whitespace 0x0A
   \<and> HashnodeService_getBlogPostBySlug refusing_runtime (hashnodeService refusing_runtime)
     (JSString [0x20, 0x09, 0x0A]) fresh_net = (Rejected InvalidSlugParameter, fresh_net)
   \<and> calls_since fresh_net
       (snd (HashnodeService_getBlogPostBySlug refusing_runtime (hashnodeService refusing_runtime)
          (JSString [0x20, 0x09, 0x0A]) fresh_net)) = []"
proof -
  have n: "(\<forall>s. JSNumber (Finite 7) \<noteq> JSString s)
      \<or> (\<exists>s. JSNumber (Finite 7) = JSString s \<and> (\<forall>c\<in>set s. is_js_whitespace c))"
    by simp
  have e: "(\<forall>s. JSString [] \<noteq> JSString s)
      \<or> (\<exists>s. JSString [] = JSString s \<and> (\<forall>c\<in>set s. is_js_whitespace c))"
    by simp
  have w: "\<forall>c\<in>set [0x20, 0x09, 0x0A]. is_js_whitespace c"
    by (simp add: is_js_whitespace_def)
  then have b: "(\<forall>s. JSString [0x20, 0x09, 0x0A] \<noteq> JSString s)
      \<or> (\<exists>s. JSString [0x20, 0x09, 0x0A] = JSString s \<and> (\<forall>c\<in>set s. is_js_whitespace c))"
    by simp
  from w have w3: "is_js_whitespace 0x20 \<and> is_js_whitespace 0x09 \<and> is_js_whitespace 0x0A"
    by simp
  from getBlogPostBySlug_invalid_slug[OF n] getBlogPostBySlug_invalid_slug[OF e]
    getBlogPostBySlug_invalid_slug[OF b] w3
  show ?thesis by blast
qed

subsection \<open>List of posts\<close>

lemma getBlogPosts_not_rejected:
  "fst (HashnodeService_getBlogPosts rt this count st) \<noteq> Rejected e"
  unfolding HashnodeService_getBlogPosts_def Let_def
  by (simp split: prod.splits promise.splits completion.splits)

lemma getBlogPosts_calls:
  "calls_since st (snd (HashnodeService_getBlogPosts rt this count st)) =
     (let vars = getBlogPosts_variables this count;
          extended = executeQuery_call rt this (HashnodeQueries_getBlogPosts True) vars;
          basic = executeQuery_call rt this (HashnodeQueries_getBlogPosts False) vars
      in case fst (getBlogPosts_try rt this True vars st) of
           Rejected _ \<Rightarrow> [extended, basic]
         | _ \<Rightarrow> [extended])"
proof -
  let ?vars = "getBlogPosts_variables this count"
  obtain r1 st1 where t1: "getBlogPosts_try rt this True ?vars st = (r1, st1)"
    by (cases "getBlogPosts_try rt this True ?vars st")
  obtain r2 st2 where t2: "getBlogPosts_try rt this False ?vars st1 = (r2, st2)"
    by (cases "getBlogPosts_try rt this False ?vars st1")
  note c1 = getBlogPosts_try_calls[OF t1]
  note c2 = getBlogPosts_try_calls[OF t2]
  show ?thesis
  proof (cases r1)
    case Pending
    with t1 c1 show ?thesis
      unfolding HashnodeService_getBlogPosts_def Let_def calls_since_def by simp
  next
    case (Fulfilled v)
    with t1 c1 show ?thesis
      unfolding HashnodeService_getBlogPosts_def Let_def calls_since_def by simp
  next
    case (Rejected e)
    with t1 t2 c1 c2 show ?thesis
      unfolding HashnodeService_getBlogPosts_def Let_def calls_since_def
      by (cases r2) simp_all
  qed
qed

lemma getBlogPosts_limit_above:
  "js_less (Finite 20) c \<Longrightarrow> getBlogPosts_limit (Some c) = Finite 20"
  by (cases c) (simp_all add: getBlogPosts_limit_def Math_min_def MAX_POSTS_PER_REQUEST_def)

lemma getBlogPosts_limit_below:
  "c \<noteq> NaN \<Longrightarrow> \<not> js_less (Finite 20) c \<Longrightarrow> getBlogPosts_limit (Some c) = c"
  by (cases c) (simp_all add: getBlogPosts_limit_def Math_min_def MAX_POSTS_PER_REQUEST_def)

lemma getBlogPosts_limit_finite:
  assumes "count \<noteq> Some NaN" and "count \<noteq> Some NegInfinity"
  shows "\<exists>q. getBlogPosts_limit count = Finite q"
proof (cases count)
  case None
  then show ?thesis
    by (simp add: getBlogPosts_limit_def Math_min_def MAX_POSTS_PER_REQUEST_def
        DEFAULT_POSTS_COUNT_def)
next
  case (Some c)
  with assms show ?thesis
    by (cases c) (simp_all add: getBlogPosts_limit_def Math_min_def MAX_POSTS_PER_REQUEST_def)
qed

text \<open>What \<open>JSON.stringify\<close> writes for the variables of \<open>getBlogPosts\<close>.\<close>

lemma JSON_properties_getBlogPosts_variables:
  "JSON_properties (getBlogPosts_variables this count) =
     [(ascii ''host'', JSString (publicationHost this)),
      (ascii ''first'', (case getBlogPosts_limit count of
                           Finite q \<Rightarrow> JSNumber (Finite q)
                         | _ \<Rightarrow> JSNull))]"
  by (cases "getBlogPosts_limit count")
     (simp_all add: JSON_properties_eq getBlogPosts_variables_def)

lemma getBlogPosts_sent:
  "map (variables \<circ> body)
       (calls_since st (snd (HashnodeService_getBlogPosts rt this count st)))
     = [Some (JSON_properties (getBlogPosts_variables this count))]
   \<or> map (variables \<circ> body)
       (calls_since st (snd (HashnodeService_getBlogPosts rt this count st)))
     = [Some (JSON_properties (getBlogPosts_variables this count)),
        Some (JSON_properties (getBlogPosts_variables this count))]"
  unfolding getBlogPosts_calls Let_def
  by (cases "fst (getBlogPosts_try rt this True (getBlogPosts_variables this count) st)")
     (simp_all add: variables_executeQuery_call)

lemma refusing_getBlogPosts_sent:
  "map (variables \<circ> body)
       (calls_since fresh_net
          (snd (HashnodeService_getBlogPosts refusing_runtime this count fresh_net)))
     = [Some (JSON_properties (getBlogPosts_variables this count)),
        Some (JSON_properties (getBlogPosts_variables this count))]"
proof -
  have "fst (getBlogPosts_try refusing_runtime this True
      (getBlogPosts_variables this count) fresh_net)
      = Rejected (NetworkError (ascii ''first''))"
    by (simp add: refusing_getBlogPosts_try fresh_net_def)
  then show ?thesis
    unfolding getBlogPosts_calls Let_def by (simp add: variables_executeQuery_call)
qed

lemma refusing_publicationHost:
  "publicationHost (hashnodeService refusing_runtime) = ascii ''yourblog.hashnode.dev''"
  by (simp add: hashnodeService_def PUBLICATION_HOST_def refusing_runtime_def)

text \<open>
  C3. \<open>HashnodeService.getBlogPosts\<close> never rejects, whatever the count and the network
  do, so the \<open>throw error\<close> after its inner \<open>catch\<close> is never reached. If the bodies of
  both \<open>try\<close> blocks throw, it returns the empty list. If every query of the transport
  fails, the facade \<open>getBlogPosts\<close> returns the empty list.
\<close>

theorem getBlogPosts_never_rejects:
  "(\<forall>e. fst (HashnodeService_getBlogPosts rt this count st) \<noteq> Rejected e)
   \<and> (\<forall>e1 st1 e2 st2.
         getBlogPosts_try rt this True (getBlogPosts_variables this count) st = (Rejected e1, st1)
         \<and> getBlogPosts_try rt this False (getBlogPosts_variables this count) st1
             = (Rejected e2, st2)
         \<longrightarrow> HashnodeService_getBlogPosts rt this count st = (Fulfilled (JSArray []), st2))
   \<and> ((\<forall>u payload options s. \<exists>e s'.
          GraphQLClient_query rt u payload options s = (Rejected e, s'))
         \<longrightarrow> fst (getBlogPosts rt count st) = Fulfilled (JSArray []))"
proof (intro conjI allI impI)
  fix e show "fst (HashnodeService_getBlogPosts rt this count st) \<noteq> Rejected e"
    by (rule getBlogPosts_not_rejected)
next
  fix e1 st1 e2 st2
  assume "getBlogPosts_try rt this True (getBlogPosts_variables this count) st = (Rejected e1, st1)
         \<and> getBlogPosts_try rt this False (getBlogPosts_variables this count) st1
             = (Rejected e2, st2)"
  then show "HashnodeService_getBlogPosts rt this count st = (Fulfilled (JSArray []), st2)"
    unfolding HashnodeService_getBlogPosts_def Let_def by simp
next
  assume a: "\<forall>u payload options s. \<exists>e s'.
    GraphQLClient_query rt u payload options s = (Rejected e, s')"
  have t: "\<exists>e s'. getBlogPosts_try rt this' ext vars s = (Rejected e, s')" for this' ext vars s
  proof -
    from a obtain e s' where
      "executeQuery rt this' (HashnodeQueries_getBlogPosts ext) vars s = (Rejected e, s')"
      unfolding executeQuery_def by blast
    then show ?thesis unfolding getBlogPosts_try_def by simp
  qed
  let ?svc = "hashnodeService rt"
  let ?vars = "getBlogPosts_variables ?svc count"
  from t obtain e1 st1 where 1: "getBlogPosts_try rt ?svc True ?vars st = (Rejected e1, st1)"
    by blast
  from t obtain e2 st2 where 2: "getBlogPosts_try rt ?svc False ?vars st1 = (Rejected e2, st2)"
    by blast
  from 1 2 have "HashnodeService_getBlogPosts rt ?svc count st = (Fulfilled (JSArray []), st2)"
    unfolding HashnodeService_getBlogPosts_def Let_def by simp
  then show "fst (getBlogPosts rt count st) = Fulfilled (JSArray [])"
    by (simp add: getBlogPosts_def)
qed

text \<open>
  C3 with the remote side that refuses every connection, for a count of 5: both attempts
  fail, the service and the facade return the empty list.
\<close>

theorem getBlogPosts_never_rejects_witness:
  "(\<forall>u payload options s. \<exists>e s'.
      GraphQLClient_query refusing_runtime u payload options s = (Rejected e, s'))
   \<and> fst (getBlogPosts_try refusing_runtime (hashnodeService refusing_runtime) True
        (getBlogPosts_variables (hashnodeService refusing_runtime) (Some (Finite 5))) fresh_net)
      = Rejected (NetworkError (ascii ''first''))
   \<and> fst (HashnodeService_getBlogPosts refusing_runtime (hashnodeService refusing_runtime)
        (Some (Finite 5)) fresh_net) = Fulfilled (JSArray [])
   \<and> fst (getBlogPosts refusing_runtime (Some (Finite 5)) fresh_net) = Fulfilled (JSArray [])"
proof -
  let ?svc = "hashnodeService refusing_runtime"
  let ?vars = "getBlogPosts_variables ?svc (Some (Finite 5))"
  let ?call = "\<lambda>ext. executeQuery_call refusing_runtime ?svc (HashnodeQueries_getBlogPosts ext) ?vars"
  let ?st1 = "\<lparr> remote = Suc 0, calls = [?call True] \<rparr>"
  let ?st2 = "\<lparr> remote = Suc (Suc 0), calls = [?call True, ?call False] \<rparr>"
  note inst = getBlogPosts_never_rejects[of refusing_runtime ?svc "Some (Finite 5)" fresh_net]
  have a: "\<forall>u payload options s. \<exists>e s'.
      GraphQLClient_query refusing_runtime u payload options s = (Rejected e, s')"
    by (simp add: refusing_query)
  have 1: "getBlogPosts_try refusing_runtime ?svc True ?vars fresh_net
      = (Rejected (NetworkError (ascii ''first'')), ?st1)"
    by (simp add: refusing_getBlogPosts_try fresh_net_def)
  have 2: "getBlogPosts_try refusing_runtime ?svc False ?vars ?st1
      = (Rejected (NetworkError (ascii ''later'')), ?st2)"
    by (simp add: refusing_getBlogPosts_try)
  from inst 1 2 have s: "HashnodeService_getBlogPosts refusing_runtime ?svc (Some (Finite 5)) fresh_net
      = (Fulfilled (JSArray []), ?st2)"
    by blast
  from inst a have f: "fst (getBlogPosts refusing_runtime (Some (Finite 5)) fresh_net)
      = Fulfilled (JSArray [])"
    by blast
  from a 1 s f show ?thesis by simp
qed

text \<open>
  C5, as the code has it. Let the count be undefined or any number but NaN and
  -Infinity. The limit is \<open>Math.min(count ?? 10, 20)\<close>: a count above 20 gives 20, a
  count not above 20 (zero and the negative ones among them) gives the count itself.
  Each call that \<open>HashnodeService.getBlogPosts\<close> makes, one or two, goes out with the
  host and this limit as \<open>first\<close>.
\<close>

theorem getBlogPosts_first_is_clamped:
  assumes "count \<noteq> Some NaN" and "count \<noteq> Some NegInfinity"
  shows "getBlogPosts_limit count =
      Math_min (case count of None \<Rightarrow> Finite 10 | Some c \<Rightarrow> c) (Finite 20)
   \<and> (\<forall>c. count = Some c \<and> js_less (Finite 20) c \<longrightarrow> getBlogPosts_limit count = Finite 20)
   \<and> (\<forall>c. count = Some c \<and> \<not> js_less (Finite 20) c \<longrightarrow> getBlogPosts_limit count = c)
   \<and> (let sent = map (variables \<circ> body)
                    (calls_since st (snd (HashnodeService_getBlogPosts rt this count st)));
           vars = Some [(ascii ''host'', JSString (publicationHost this)),
                        (ascii ''first'', JSNumber (getBlogPosts_limit count))]
       in sent = [vars] \<or> sent = [vars, vars])"
proof -
  have 1: "getBlogPosts_limit count =
      Math_min (case count of None \<Rightarrow> Finite 10 | Some c \<Rightarrow> c) (Finite 20)"
    by (cases count)
       (simp_all add: getBlogPosts_limit_def MAX_POSTS_PER_REQUEST_def DEFAULT_POSTS_COUNT_def)
  have 2: "getBlogPosts_limit count = Finite 20" if "count = Some c" "js_less (Finite 20) c" for c
    using that getBlogPosts_limit_above by simp
  have 3: "getBlogPosts_limit count = c" if "count = Some c" "\<not> js_less (Finite 20) c" for c
    using that assms(1) getBlogPosts_limit_below by simp
  from getBlogPosts_limit_finite[OF assms] obtain q where q: "getBlogPosts_limit count = Finite q"
    by blast
  then have "JSON_properties (getBlogPosts_variables this count) =
      [(ascii ''host'', JSString (publicationHost this)),
       (ascii ''first'', JSNumber (getBlogPosts_limit count))]"
    by (simp add: JSON_properties_getBlogPosts_variables)
  with getBlogPosts_sent[of st rt this count]
  have 4: "(let sent = map (variables \<circ> body)
                    (calls_since st (snd (HashnodeService_getBlogPosts rt this count st)));
           vars = Some [(ascii ''host'', JSString (publicationHost this)),
                        (ascii ''first'', JSNumber (getBlogPosts_limit count))]
       in sent = [vars] \<or> sent = [vars, vars])"
    by (simp add: Let_def)
  from 1 2 3 4 show ?thesis by blast
qed

text \<open>
  The amended C5 at the counts 50, +Infinity, 20, 7, 0 and -3 and at no count, and on the
  calls made for the count 50 when the remote side refuses every connection.
\<close>

theorem getBlogPosts_first_is_clamped_witness:
  "js_less (Finite 20) (Finite 50) \<and> getBlogPosts_limit (Some (Finite 50)) = Finite 20
   \<and> js_less (Finite 20) PosInfinity \<and> getBlogPosts_limit (Some PosInfinity) = Finite 20
   \<and> \<not> js_less (Finite 20) (Finite 20) \<and> getBlogPosts_limit (Some (Finite 20)) = Finite 20
   \<and> \<not> js_less (Finite 20) (Finite 7) \<and> getBlogPosts_limit (Some (Finite 7)) = Finite 7
   \<and> \<not> js_less (Finite 20) (Finite 0) \<and> getBlogPosts_limit (Some (Finite 0)) = Finite 0
   \<and> \<not> js_less (Finite 20) (Finite (- 3)) \<and> getBlogPosts_limit (Some (Finite (- 3))) = Finite (- 3)
   \<and> getBlogPosts_limit None = Finite 10
   \<and> map (variables \<circ> body)
        (calls_since fresh_net
           (snd (HashnodeService_getBlogPosts refusing_runtime (hashnodeService refusing_runtime)
                   (Some (Finite 50)) fresh_net)))
      = [Some [(ascii ''host'', JSString (ascii ''yourblog.hashnode.dev'')),
               (ascii ''first'', JSNumber (Finite 20))],
         Some [(ascii ''host'', JSString (ascii ''yourblog.hashnode.dev'')),
               (ascii ''first'', JSNumber (Finite 20))]]"
proof -
  let ?svc = "hashnodeService refusing_runtime"
  note inst = getBlogPosts_first_is_clamped[of _ fresh_net refusing_runtime ?svc]
  have l50: "js_less (Finite 20) (Finite 50)" and li: "js_less (Finite 20) PosInfinity"
    and l20: "\<not> js_less (Finite 20) (Finite 20)" and l7: "\<not> js_less (Finite 20) (Finite 7)"
    and l0: "\<not> js_less (Finite 20) (Finite 0)" and l3: "\<not> js_less (Finite 20) (Finite (- 3))"
    by simp_all
  from inst[of "Some (Finite 50)"] l50
  have a: "getBlogPosts_limit (Some (Finite 50)) = Finite 20" by (simp add: Math_min_def)
  from inst[of "Some PosInfinity"] li
  have i: "getBlogPosts_limit (Some PosInfinity) = Finite 20" by (simp add: Math_min_def)
  from inst[of "Some (Finite 20)"] l20
  have b: "getBlogPosts_limit (Some (Finite 20)) = Finite 20" by (simp add: Math_min_def)
  from inst[of "Some (Finite 7)"] l7
  have c: "getBlogPosts_limit (Some (Finite 7)) = Finite 7" by (simp add: Math_min_def)
  from inst[of "Some (Finite 0)"] l0
  have d: "getBlogPosts_limit (Some (Finite 0)) = Finite 0" by (simp add: Math_min_def)
  from inst[of "Some (Finite (- 3))"] l3
  have e: "getBlogPosts_limit (Some (Finite (- 3))) = Finite (- 3)" by (simp add: Math_min_def)
  from inst[of None] have f: "getBlogPosts_limit None = Finite 10"
    by (simp add: Math_min_def)
  have n: "length (map (variables \<circ> body) (calls_since fresh_net
           (snd (HashnodeService_getBlogPosts refusing_runtime ?svc (Some (Finite 50)) fresh_net))))
      = 2"
    by (simp only: refusing_getBlogPosts_sent) simp
  from inst[of "Some (Finite 50)"] n a refusing_publicationHost
  have g: "map (variables \<circ> body)
        (calls_since fresh_net
           (snd (HashnodeService_getBlogPosts refusing_runtime ?svc (Some (Finite 50)) fresh_net)))
      = [Some [(ascii ''host'', JSString (ascii ''yourblog.hashnode.dev'')),
               (ascii ''first'', JSNumber (Finite 20))],
         Some [(ascii ''host'', JSString (ascii ''yourblog.hashnode.dev'')),
               (ascii ''first'', JSNumber (Finite 20))]]"
    by (auto simp: Let_def)
  from l50 li l20 l7 l0 l3 a i b c d e f g show ?thesis by blast
qed

text \<open>
  C5 as stated fails at the count -Infinity, which is not above the ceiling:
  \<open>Math.min(-Infinity, 20)\<close> is -Infinity, and \<open>JSON.stringify\<close> writes it as
  \<open>null\<close>, so both calls go out with \<open>first: null\<close>.
\<close>

theorem getBlogPosts_minus_infinity_counterexample:
  "\<not> js_less (Finite 20) NegInfinity
   \<and> Math_min NegInfinity (Finite 20) = NegInfinity
   \<and> getBlogPosts_limit (Some NegInfinity) = NegInfinity
   \<and> map (variables \<circ> body)
        (calls_since fresh_net
           (snd (HashnodeService_getBlogPosts refusing_runtime (hashnodeService refusing_runtime)
                   (Some NegInfinity) fresh_net)))
      = [Some [(ascii ''host'', JSString (ascii ''yourblog.hashnode.dev'')),
               (ascii ''first'', JSNull)],
         Some [(ascii ''host'', JSString (ascii ''yourblog.hashnode.dev'')),
               (ascii ''first'', JSNull)]]"
proof -
  have l: "getBlogPosts_limit (Some NegInfinity) = NegInfinity"
    by (simp add: getBlogPosts_limit_def Math_min_def MAX_POSTS_PER_REQUEST_def)
  have m: "Math_min NegInfinity (Finite 20) = NegInfinity"
    by (simp add: Math_min_def)
  from l have "JSON_properties (getBlogPosts_variables (hashnodeService refusing_runtime)
      (Some NegInfinity))
      = [(ascii ''host'', JSString (ascii ''yourblog.hashnode.dev'')), (ascii ''first'', JSNull)]"
    by (simp add: JSON_properties_getBlogPosts_variables refusing_publicationHost)
  with l m show ?thesis by (simp add: refusing_getBlogPosts_sent)
qed

subsection \<open>Timeout\<close>

text \<open>The result of a query does not depend on the \<open>timeout\<close> option.\<close>

lemma GraphQLClient_query_ignores_timeout:
  "GraphQLClient_query rt u payload (options\<lparr>timeout_opt := t\<rparr>) st =
   GraphQLClient_query rt u payload options st"
  by (simp add: GraphQLClient_query_def GraphQLClient_request_def)

lemma GraphQLClient_query_pending:
  "fetch rt (remote st) (GraphQLClient_request rt u payload options) = (NeverSettles, w) \<Longrightarrow>
     fst (GraphQLClient_query rt u payload options st) = Pending"
  by (simp add: GraphQLClient_query_def Let_def)

text \<open>
  C4 does not hold of the code. With a remote side that never answers and the configured
  timeout of 15000 ms, the query of the transport stays pending: it does not fail with a
  network error, and neither does the service call built on it.
\<close>

theorem GraphQLClient_query_silent_remote:
  "fst (GraphQLClient_query silent_runtime API_URL
          \<lparr> query = HashnodeQueries_getPublication,
            variables = Some [(ascii ''host'', JSString (PUBLICATION_HOST silent_runtime))] \<rparr>
          \<lparr> timeout_opt = Some TIMEOUT_MS, headers_opt = None \<rparr> fresh_net) = Pending
   \<and> fst (HashnodeService_getBlogPostBySlug silent_runtime (hashnodeService silent_runtime)
          (JSString (ascii ''my-post'')) fresh_net) = Pending
   \<and> timeout (hashnodeService silent_runtime) = Finite 15000"
proof -
  have 1: "fst (GraphQLClient_query silent_runtime API_URL
          \<lparr> query = HashnodeQueries_getPublication,
            variables = Some [(ascii ''host'', JSString (PUBLICATION_HOST silent_runtime))] \<rparr>
          \<lparr> timeout_opt = Some TIMEOUT_MS, headers_opt = None \<rparr> fresh_net) = Pending"
    by (rule GraphQLClient_query_pending) (simp add: silent_runtime_def)
  have v: "\<not> invalid_slug (JSString (ascii ''my-post''))"
    by (rule valid_slug) (simp add: ascii_def is_js_whitespace_def)
  have "fst (getBlogPostBySlug_try silent_runtime (hashnodeService silent_runtime) True vars
      fresh_net) = Pending" for vars
    unfolding getBlogPostBySlug_try_def executeQuery_def
    by (simp add: GraphQLClient_query_def silent_runtime_def Let_def)
  then obtain st1 where "getBlogPostBySlug_try silent_runtime (hashnodeService silent_runtime) True
      (getBlogPostBySlug_variables (hashnodeService silent_runtime) (js_trim (ascii ''my-post'')))
      fresh_net = (Pending, st1)"
    by (metis prod.collapse)
  with v have 2: "fst (HashnodeService_getBlogPostBySlug silent_runtime
      (hashnodeService silent_runtime) (JSString (ascii ''my-post'')) fresh_net) = Pending"
    unfolding HashnodeService_getBlogPostBySlug_def Let_def by simp
  have 3: "timeout (hashnodeService silent_runtime) = Finite 15000"
    by (simp add: hashnodeService_def TIMEOUT_MS_def)
  from 1 2 3 show ?thesis by simp
qed

end
